theory Spec2Isabelle
  imports Complex_Main
begin

section \<open>JavaScript values\<close>

text \<open>
  The request body is what \<open>express.json\<close> hands to the handler: a parsed JSON value.
  A number is a finite double, an infinity (\<open>JSON.parse\<close> reads \<open>1e999\<close> as
  \<open>Infinity\<close>) or \<open>NaN\<close> (only arithmetic produces it). A finite double is
  a rational; \<open>-0\<close> is identified with \<open>0\<close>, from which the program cannot tell it
  apart (both are falsy and the stored count is \<open>Number(c || 0)\<close>).
  An object is the list of its own properties; \<open>JUndefined\<close> is what reading a
  missing property gives.
\<close>

type_synonym exn = string
  \<comment> \<open>a thrown value, as the text \<open>String(e?.message || e)\<close> that the handler reports\<close>

datatype jsnum = Finite rat | NaN | PosInfinity | NegInfinity

datatype jsval =
    JUndefined
  | JNull
  | JBool bool
  | JNum jsnum
  | JStr string
  | JArr "jsval list"
  | JObj "(string \<times> jsval) list"

text \<open>ToBoolean.\<close>

fun truthy :: "jsval \<Rightarrow> bool" where
  "truthy JUndefined = False"
| "truthy JNull = False"
| "truthy (JBool b) = b"
| "truthy (JNum n) = (n \<noteq> Finite 0 \<and> n \<noteq> NaN)"
| "truthy (JStr s) = (s \<noteq> [])"
| "truthy (JArr xs) = True"
| "truthy (JObj kvs) = True"

text \<open>\<open>a || b\<close>.\<close>

definition js_or :: "jsval \<Rightarrow> jsval \<Rightarrow> jsval" where
  "js_or a b = (if truthy a then a else b)"

text \<open>
  \<open>v?.k\<close>, for the property names the program reads (\<open>workspaces\<close>, \<open>workspaceId\<close>,
  \<open>login\<close>, ...): none of them is a property of a prototype, so only an object's own
  properties answer, and \<open>null\<close> and \<open>undefined\<close> give \<open>undefined\<close> by \<open>?.\<close>.
\<close>

fun js_get :: "jsval \<Rightarrow> string \<Rightarrow> jsval" where
  "js_get (JObj kvs) k = (case map_of kvs k of Some v \<Rightarrow> v | None \<Rightarrow> JUndefined)"
| "js_get v k = JUndefined"

text \<open>\<open>Array.isArray(v)\<close>, \<open>typeof v === "number"\<close>.\<close>

fun isArray :: "jsval \<Rightarrow> bool" where
  "isArray (JArr xs) = True"
| "isArray v = False"

fun isNumber :: "jsval \<Rightarrow> bool" where
  "isNumber (JNum n) = True"
| "isNumber v = False"

text \<open>Sequencing of computations that may throw.\<close>

definition and_then :: "exn + 'a \<Rightarrow> ('a \<Rightarrow> exn + 'b) \<Rightarrow> exn + 'b" where
  "and_then m f = (case m of Inl e \<Rightarrow> Inl e | Inr x \<Rightarrow> f x)"

text \<open>
  \<open>String(v)\<close>. A number is printed by \<open>Number::toString\<close>, which is a parameter
  \<open>ns\<close> here (the shortest decimal that reads back as the same double). An array is
  joined with commas, \<open>null\<close> and \<open>undefined\<close> elements printing as nothing. An
  object is printed by the first callable of its \<open>toString\<close> and \<open>valueOf\<close>
  that returns a primitive: \<open>Object.prototype.toString\<close> gives \<open>[object Object]\<close>,
  but an own property \<open>toString\<close> of a parsed object is never callable and
  \<open>valueOf\<close> returns the object, so the conversion throws a TypeError.
\<close>

definition cannot_convert :: exn where
  "cannot_convert = ''Cannot convert object to primitive value''"

fun js_String :: "(jsnum \<Rightarrow> string) \<Rightarrow> jsval \<Rightarrow> exn + string"
  and js_join :: "(jsnum \<Rightarrow> string) \<Rightarrow> jsval list \<Rightarrow> exn + string"
  and js_elem :: "(jsnum \<Rightarrow> string) \<Rightarrow> jsval \<Rightarrow> exn + string" where
  "js_String ns JUndefined = Inr ''undefined''"
| "js_String ns JNull = Inr ''null''"
| "js_String ns (JBool b) = Inr (if b then ''true'' else ''false'')"
| "js_String ns (JNum n) = Inr (ns n)"
| "js_String ns (JStr s) = Inr s"
| "js_String ns (JArr xs) = js_join ns xs"
| "js_String ns (JObj kvs) =
     (if map_of kvs ''toString'' = None then Inr ''[object Object]'' else Inl cannot_convert)"
| "js_join ns [] = Inr ''''"
| "js_join ns [x] = js_elem ns x"
| "js_join ns (x # y # ys) =
     and_then (js_elem ns x) (\<lambda>s. and_then (js_join ns (y # ys)) (\<lambda>t. Inr (s @ '','' @ t)))"
| "js_elem ns JUndefined = Inr ''''"
| "js_elem ns JNull = Inr ''''"
| "js_elem ns v = js_String ns v"

section \<open>The payload normalizer\<close>

text \<open>The object that \<open>normalizeToWorkspaces\<close> builds for one workspace.\<close>

record workspace_payload =
  workspaceId :: string
  workspaceName :: string
  extensionVersion :: string
  generatedAt :: string
  findings :: "jsval list"
  findingsCount :: jsnum
  findingsFile :: string

text \<open>
  \<open>Array.isArray(v) ? v : []\<close> and
  \<open>typeof c === "number" ? c : (Array.isArray(v) ? v.length : 0)\<close>.
\<close>

fun array_or_empty :: "jsval \<Rightarrow> jsval list" where
  "array_or_empty (JArr xs) = xs"
| "array_or_empty v = []"

fun number_or_length :: "jsval \<Rightarrow> jsval \<Rightarrow> jsnum" where
  "number_or_length (JNum n) v = n"
| "number_or_length c (JArr xs) = Finite (of_nat (length xs))"
| "number_or_length c v = Finite 0"

text \<open>
  The callback of \<open>body.workspaces.map\<close>, for the element \<open>w\<close>. \<open>now\<close> is what
  \<open>new Date().toISOString()\<close> gives while this element is mapped. The properties are
  evaluated in the order of the object literal, and the first \<open>String\<close> that throws
  ends the call.
\<close>

definition workspace_of_element ::
  "(jsnum \<Rightarrow> string) \<Rightarrow> string \<Rightarrow> jsval \<Rightarrow> jsval \<Rightarrow> exn + workspace_payload" where
  "workspace_of_element ns now body w =
     and_then (js_String ns (js_or (js_get w ''workspaceId'') (JStr ''''))) (\<lambda>wid.
     and_then (js_String ns (js_or (js_get w ''workspaceName'') (JStr ''''))) (\<lambda>wname.
     and_then (js_String ns
        (js_or (js_or (js_get body ''extensionVersion'') (js_get w ''extensionVersion''))
           (JStr ''''))) (\<lambda>ev.
     and_then (js_String ns
        (js_or (js_or (js_get body ''generatedAt'') (js_get w ''generatedAt'')) (JStr now))) (\<lambda>gen.
     and_then (js_String ns (js_or (js_get w ''findingsFile'') (JStr ''''))) (\<lambda>ff.
     Inr \<lparr> workspaceId = wid, workspaceName = wname, extensionVersion = ev,
           generatedAt = gen,
           findings = array_or_empty (js_get w ''findings''),
           findingsCount = number_or_length (js_get w ''findingsCount'') (js_get w ''findings''),
           findingsFile = ff \<rparr>)))))"

text \<open>The object of the flat legacy branch, read from the body's own top level.\<close>

definition workspace_of_body ::
  "(jsnum \<Rightarrow> string) \<Rightarrow> string \<Rightarrow> jsval \<Rightarrow> exn + workspace_payload" where
  "workspace_of_body ns now body =
     and_then (js_String ns (js_or (js_get body ''workspaceId'') (JStr ''''))) (\<lambda>wid.
     and_then (js_String ns (js_or (js_get body ''workspaceName'') (JStr ''''))) (\<lambda>wname.
     and_then (js_String ns (js_or (js_get body ''extensionVersion'') (JStr ''''))) (\<lambda>ev.
     and_then (js_String ns (js_or (js_get body ''generatedAt'') (JStr now))) (\<lambda>gen.
     and_then (js_String ns (js_or (js_get body ''findingsFile'') (JStr ''''))) (\<lambda>ff.
     Inr \<lparr> workspaceId = wid, workspaceName = wname, extensionVersion = ev,
           generatedAt = gen,
           findings = array_or_empty (js_get body ''findings''),
           findingsCount =
             number_or_length (js_get body ''findingsCount'') (js_get body ''findings''),
           findingsFile = ff \<rparr>)))))"

text \<open>
  \<open>Array.prototype.map\<close> over the elements, left to right; \<open>i\<close> is the index of the
  first element of the list, and \<open>clock i\<close> the ISO time read while element \<open>i\<close>
  is mapped.
\<close>

fun map_elements ::
  "(jsnum \<Rightarrow> string) \<Rightarrow> (nat \<Rightarrow> string) \<Rightarrow> jsval \<Rightarrow> nat \<Rightarrow> jsval list
    \<Rightarrow> exn + workspace_payload list" where
  "map_elements ns clock body i [] = Inr []"
| "map_elements ns clock body i (w # ws) =
     and_then (workspace_of_element ns (clock i) body w) (\<lambda>r.
     and_then (map_elements ns clock body (Suc i) ws) (\<lambda>rs. Inr (r # rs)))"

definition normalizeToWorkspaces ::
  "(jsnum \<Rightarrow> string) \<Rightarrow> (nat \<Rightarrow> string) \<Rightarrow> jsval \<Rightarrow> exn + workspace_payload list" where
  "normalizeToWorkspaces ns clock body =
     (if truthy body \<and> isArray (js_get body ''workspaces'')
      then map_elements ns clock body 0 (array_or_empty (js_get body ''workspaces''))
      else and_then (workspace_of_body ns (clock 0) body) (\<lambda>r. Inr [r]))"

section \<open>Strings of the handler\<close>

text \<open>
  A header value is a list of Latin-1 code units. \<open>String.prototype.trim\<close> strips
  white space and line terminators from both ends; in this range these are tab, line feed,
  vertical tab, form feed, carriage return, space and no-break space. The text of the
  identity service's response, which only enters an error message, is taken over the
  same alphabet.
\<close>

definition is_whitespace :: "char \<Rightarrow> bool" where
  "is_whitespace c =
     (c \<in> set [CHR 0x09, CHR 0x0A, CHR 0x0B, CHR 0x0C, CHR 0x0D, CHR 0x20, CHR 0xA0])"

definition trim :: "string \<Rightarrow> string" where
  "trim s = rev (dropWhile is_whitespace (rev (dropWhile is_whitespace s)))"

definition startsWith :: "string \<Rightarrow> string \<Rightarrow> bool" where
  "startsWith s p = (take (length p) s = p)"

text \<open>A non-negative integer in a template literal: its decimal digits.\<close>

definition digit_char :: "nat \<Rightarrow> char" where
  "digit_char d = ''0123456789'' ! (d mod 10)"

fun show_nat :: "nat \<Rightarrow> string" where
  "show_nat n =
     (if n < 10 then [digit_char n] else show_nat (n div 10) @ [digit_char (n mod 10)])"

section \<open>The identity resolver\<close>

text \<open>
  What \<open>fetch\<close> resolves to: \<open>r.ok\<close>, \<open>r.status\<close>, the outcome of
  \<open>r.text()\<close> (\<open>None\<close> when it rejects) and the outcome of \<open>r.json()\<close>.
\<close>

record fetch_response =
  r_ok :: bool
  r_status :: nat
  r_text :: "string option"
  r_json :: "exn + jsval"

text \<open>
  \<open>fetch\<close> is the call to the identity service with the token as bearer credential;
  it rejects (\<open>Inl\<close>) or resolves to a response.
\<close>

definition githubUsernameFromToken ::
  "(string \<Rightarrow> exn + fetch_response) \<Rightarrow> string \<Rightarrow> exn + jsval" where
  "githubUsernameFromToken fetch token =
     and_then (fetch token) (\<lambda>r.
       if \<not> r_ok r then
         Inl (trim (''GitHub auth failed: HTTP '' @ show_nat (r_status r) @ '' '' @
                (case r_text r of None \<Rightarrow> '''' | Some t \<Rightarrow> t)))
       else
         and_then (r_json r) (\<lambda>data.
           if \<not> truthy (js_get data ''login'') then Inl ''GitHub response missing login''
           else Inr (js_get data ''login'')))"

section \<open>The handler of POST /v1/findings\<close>

text \<open>The document handed to the store: the payload's fields, the user and the receipt time.\<close>

record batch_doc = workspace_payload +
  username :: jsval
  receivedAt :: nat

text \<open>The request: the \<open>authorization\<close> header, if any, and the parsed body.\<close>

record request =
  authorization :: "string option"
  req_body :: jsval

text \<open>
  What the handler runs in: the identity service, the store's \<open>insertMany\<close> (it throws,
  or returns \<open>result.insertedIds\<close>, the object that maps a document's index to its
  identifier, here as its own properties with each identifier already printed by
  \<open>toString\<close>), the clock as ISO text (read while element \<open>i\<close> is normalized) and as
  a date (read while document \<open>i\<close> is built), and the two operations on doubles that
  stay abstract: printing and addition.
\<close>

record env =
  fetch_user :: "string \<Rightarrow> exn + fetch_response"
  insertMany :: "batch_doc list \<Rightarrow> exn + (nat \<times> string) list"
  iso_now :: "nat \<Rightarrow> string"
  date_now :: "nat \<Rightarrow> nat"
  number_to_string :: "jsnum \<Rightarrow> string"
  number_add :: "jsnum \<Rightarrow> jsnum \<Rightarrow> jsnum"

text \<open>The calls that leave the process, in the order made.\<close>

datatype call = GitHubUser string | InsertMany "batch_doc list"

text \<open>
  The JSON of the response: \<open>{ok: false, error}\<close> or
  \<open>{ok: true, username, batchesInserted, totalFindings, batchIds}\<close>.
\<close>

datatype reply = Failure string | Success jsval jsnum jsnum "string list"

record outcome =
  res_status :: nat
  res_json :: reply
  calls :: "call list"

text \<open>\<open>c || 0\<close> for a number \<open>c\<close> (\<open>Number\<close> of a number is that number).\<close>

definition number_or_zero :: "jsnum \<Rightarrow> jsnum" where
  "number_or_zero c = (if truthy (JNum c) then c else Finite 0)"

text \<open>The callback that builds the document of the payload at index \<open>i\<close>.\<close>

definition doc_of_payload :: "jsval \<Rightarrow> nat \<Rightarrow> workspace_payload \<Rightarrow> batch_doc" where
  "doc_of_payload user t w =
     \<lparr> workspaceId = workspaceId w, workspaceName = workspaceName w,
       extensionVersion = extensionVersion w, generatedAt = generatedAt w,
       findings = findings w,
       findingsCount = number_or_zero (findingsCount w),
       findingsFile = findingsFile w,
       username = user, receivedAt = t \<rparr>"

definition build_docs ::
  "jsval \<Rightarrow> (nat \<Rightarrow> nat) \<Rightarrow> workspace_payload list \<Rightarrow> batch_doc list" where
  "build_docs user dates ws = map (\<lambda>(i, w). doc_of_payload user (dates i) w) (enumerate 0 ws)"

text \<open>
  \<open>Object.values\<close> of an object whose keys are array indices: the values by ascending
  key.
\<close>

definition object_values :: "(nat \<times> 'a) list \<Rightarrow> 'a list" where
  "object_values kvs = map snd (sort_key fst kvs)"

text \<open>\<open>docs.reduce((sum, d) => sum + (d.findingsCount || 0), 0)\<close>.\<close>

definition total_findings :: "(jsnum \<Rightarrow> jsnum \<Rightarrow> jsnum) \<Rightarrow> batch_doc list \<Rightarrow> jsnum" where
  "total_findings add docs =
     foldl (\<lambda>sum d. add sum (number_or_zero (findingsCount d))) (Finite 0) docs"

text \<open>
  \<open>String(req.headers.authorization || "")\<close>, and of it the token: what follows the
  prefix \<open>Bearer \<close>, trimmed, or the empty string when the prefix is missing.
\<close>

definition extract_token :: "string option \<Rightarrow> string" where
  "extract_token header =
     (let auth = (case header of None \<Rightarrow> '''' | Some h \<Rightarrow> h)
      in if startsWith auth ''Bearer '' then trim (drop 7 auth) else '''')"

text \<open>
  The handler. A missing token is answered at once with 401. After that every throw (of
  the identity resolver, of the normalizer, of the store) is caught by the one
  \<open>catch\<close> of the handler and answered with 500 and the text of the thrown value; an
  empty list of payloads is answered with 400; otherwise the documents are built and
  handed to the store in one \<open>insertMany\<close>, and the answer is 200 (the default status of
  \<open>res.json\<close>). The outcome keeps the status, the JSON of the response and the
  outbound calls made.
\<close>

definition post_findings :: "env \<Rightarrow> request \<Rightarrow> outcome" where
  "post_findings env req =
     (let token = extract_token (authorization req) in
      if token = '''' then
        \<lparr> res_status = 401, res_json = Failure ''Missing Bearer token'', calls = [] \<rparr>
      else
        case githubUsernameFromToken (fetch_user env) token of
          Inl e \<Rightarrow> \<lparr> res_status = 500, res_json = Failure e, calls = [GitHubUser token] \<rparr>
        | Inr user \<Rightarrow>
            (case normalizeToWorkspaces (number_to_string env) (iso_now env)
                    (js_or (req_body req) (JObj [])) of
               Inl e \<Rightarrow> \<lparr> res_status = 500, res_json = Failure e, calls = [GitHubUser token] \<rparr>
             | Inr workspacePayloads \<Rightarrow>
                 if length workspacePayloads = 0 then
                   \<lparr> res_status = 400, res_json = Failure ''Invalid payload'',
                     calls = [GitHubUser token] \<rparr>
                 else
                   (let docs = build_docs user (date_now env) workspacePayloads in
                    case insertMany env docs of
                      Inl e \<Rightarrow>
                        \<lparr> res_status = 500, res_json = Failure e,
                          calls = [GitHubUser token, InsertMany docs] \<rparr>
                    | Inr insertedIds \<Rightarrow>
                        \<lparr> res_status = 200,
                          res_json = Success user (Finite (of_nat (length docs)))
                                    (total_findings (number_add env) docs)
                                    (object_values insertedIds),
                          calls = [GitHubUser token, InsertMany docs] \<rparr>)))"

section \<open>Notions used in the statements\<close>

text \<open>
  The input records of a body: the elements of \<open>workspaces\<close> when that is an array
  (the multi-workspace shape), and otherwise the body itself (the flat legacy shape).
\<close>

definition input_records :: "jsval \<Rightarrow> jsval list" where
  "input_records b =
     (if isArray (js_get b ''workspaces'') then array_or_empty (js_get b ''workspaces'') else [b])"

text \<open>A number that is a non-negative integer.\<close>

definition is_nonneg_int :: "jsnum \<Rightarrow> bool" where
  "is_nonneg_int n = (case n of Finite q \<Rightarrow> 0 \<le> q \<and> of_int \<lfloor>q\<rfloor> = q | _ \<Rightarrow> False)"

text \<open>
  How a string-typed property \<open>v\<close> of the caller relates to the text \<open>s\<close> of the
  record: a string is kept as it is, a missing or falsy value gives the empty string, and
  a truthy value gives what \<open>String\<close> makes of it.
\<close>

definition coerced :: "(jsnum \<Rightarrow> string) \<Rightarrow> jsval \<Rightarrow> string \<Rightarrow> bool" where
  "coerced ns v s =
     (case v of
        JStr t \<Rightarrow> s = t
      | _ \<Rightarrow> if truthy v then js_String ns v = Inr s else s = '''')"

text \<open>
  The values that the normalizer hands to \<open>String\<close> for the input record \<open>w\<close> of
  the body \<open>b\<close> (each before its default is put in; a default always converts), and
  the bodies for which \<open>String\<close> converts all of them, for every input record.
\<close>

definition string_values :: "jsval \<Rightarrow> jsval \<Rightarrow> jsval list" where
  "string_values b w =
     [js_get w ''workspaceId'', js_get w ''workspaceName'',
      js_or (js_get b ''extensionVersion'') (js_get w ''extensionVersion''),
      js_or (js_get b ''generatedAt'') (js_get w ''generatedAt''),
      js_get w ''findingsFile'']"

definition converts :: "(jsnum \<Rightarrow> string) \<Rightarrow> jsval \<Rightarrow> bool" where
  "converts ns v = (case js_String ns v of Inl e \<Rightarrow> False | Inr s \<Rightarrow> True)"

definition strings_convert :: "(jsnum \<Rightarrow> string) \<Rightarrow> jsval \<Rightarrow> bool" where
  "strings_convert ns b =
     list_all (\<lambda>w. list_all (converts ns) (string_values b w)) (input_records b)"

section \<open>Examples\<close>

text \<open>
  Concrete collaborators: an identity service that answers every token with the given
  response, a store that numbers the documents it is given, a fixed clock, an addition
  that is exact on the small integers of the examples, and a number printer that prints
  nothing (no example prints a number).
\<close>

definition example_print :: "jsnum \<Rightarrow> string" where
  "example_print n = ''''"

definition example_clock :: "nat \<Rightarrow> string" where
  "example_clock i = ''2025-01-01T00:00:00.000Z''"

definition exact_add :: "jsnum \<Rightarrow> jsnum \<Rightarrow> jsnum" where
  "exact_add a b = (case (a, b) of (Finite x, Finite y) \<Rightarrow> Finite (x + y) | _ \<Rightarrow> NaN)"

definition numbered_ids :: "batch_doc list \<Rightarrow> (nat \<times> string) list" where
  "numbered_ids ds = map (\<lambda>i. (i, ''id'' @ show_nat i)) [0..<length ds]"

definition example_env :: "fetch_response \<Rightarrow> env" where
  "example_env r =
     \<lparr> fetch_user = (\<lambda>t. Inr r),
       insertMany = (\<lambda>ds. Inr (numbered_ids ds)),
       iso_now = example_clock,
       date_now = (\<lambda>i. 0),
       number_to_string = example_print,
       number_add = exact_add \<rparr>"

text \<open>The identity service accepts the token, or rejects it with 401.\<close>

definition alice_response :: fetch_response where
  "alice_response =
     \<lparr> r_ok = True, r_status = 200, r_text = Some '''',
       r_json = Inr (JObj [(''login'', JStr ''alice'')]) \<rparr>"

definition denied_response :: fetch_response where
  "denied_response =
     \<lparr> r_ok = False, r_status = 401, r_text = Some ''Bad credentials'',
       r_json = Inr (JObj [(''message'', JStr ''Bad credentials'')]) \<rparr>"

text \<open>A request with the header \<open>Authorization: Bearer t\<close> and the given body.\<close>

definition example_request :: "jsval \<Rightarrow> request" where
  "example_request b = \<lparr> authorization = Some ''Bearer t'', req_body = b \<rparr>"

text \<open>
  \<open>{extensionVersion: "1.0", generatedAt: "2024-01-01T00:00:00.000Z", workspaces:
  [{extensionVersion: "2.0", generatedAt: "2024-06-30T00:00:00.000Z"}, {}]}\<close> and its
  records.
\<close>

definition versions_body :: jsval where
  "versions_body =
     JObj [(''extensionVersion'', JStr ''1.0''),
           (''generatedAt'', JStr ''2024-01-01T00:00:00.000Z''),
           (''workspaces'', JArr
              [JObj [(''extensionVersion'', JStr ''2.0''),
                     (''generatedAt'', JStr ''2024-06-30T00:00:00.000Z'')],
               JObj []])]"

definition versions_records :: "workspace_payload list" where
  "versions_records =
     [\<lparr> workspaceId = '''', workspaceName = '''', extensionVersion = ''1.0'',
        generatedAt = ''2024-01-01T00:00:00.000Z'', findings = [],
        findingsCount = Finite 0, findingsFile = '''' \<rparr>,
      \<lparr> workspaceId = '''', workspaceName = '''', extensionVersion = ''1.0'',
        generatedAt = ''2024-01-01T00:00:00.000Z'', findings = [],
        findingsCount = Finite 0, findingsFile = '''' \<rparr>]"

text \<open>
  \<open>{workspaces: [{findingsCount: 7, findings: [null]}, {findings: [null, null]},
  {findingsCount: "3"}]}\<close> and its records.
\<close>

definition counts_body :: jsval where
  "counts_body =
     JObj [(''workspaces'', JArr
        [JObj [(''findingsCount'', JNum (Finite 7)), (''findings'', JArr [JNull])],
         JObj [(''findings'', JArr [JNull, JNull])],
         JObj [(''findingsCount'', JStr ''3'')]])]"

definition counts_records :: "workspace_payload list" where
  "counts_records =
     [\<lparr> workspaceId = '''', workspaceName = '''', extensionVersion = '''',
        generatedAt = ''2025-01-01T00:00:00.000Z'', findings = [JNull],
        findingsCount = Finite 7, findingsFile = '''' \<rparr>,
      \<lparr> workspaceId = '''', workspaceName = '''', extensionVersion = '''',
        generatedAt = ''2025-01-01T00:00:00.000Z'', findings = [JNull, JNull],
        findingsCount = Finite 2, findingsFile = '''' \<rparr>,
      \<lparr> workspaceId = '''', workspaceName = '''', extensionVersion = '''',
        generatedAt = ''2025-01-01T00:00:00.000Z'', findings = [],
        findingsCount = Finite 0, findingsFile = '''' \<rparr>]"

text \<open>\<open>{findingsCount: -5}\<close> and its record.\<close>

definition negative_count_body :: jsval where
  "negative_count_body = JObj [(''findingsCount'', JNum (Finite (- 5)))]"

definition negative_count_record :: workspace_payload where
  "negative_count_record =
     \<lparr> workspaceId = '''', workspaceName = '''', extensionVersion = '''',
       generatedAt = ''2025-01-01T00:00:00.000Z'', findings = [],
       findingsCount = Finite (- 5), findingsFile = '''' \<rparr>"

text \<open>\<open>{workspaceId: true}\<close> and its record.\<close>

definition boolean_id_body :: jsval where
  "boolean_id_body = JObj [(''workspaceId'', JBool True)]"

definition boolean_id_record :: workspace_payload where
  "boolean_id_record =
     \<lparr> workspaceId = ''true'', workspaceName = '''', extensionVersion = '''',
       generatedAt = ''2025-01-01T00:00:00.000Z'', findings = [],
       findingsCount = Finite 0, findingsFile = '''' \<rparr>"

text \<open>\<open>{workspaces: []}\<close>\<close>

definition empty_workspaces_body :: jsval where
  "empty_workspaces_body = JObj [(''workspaces'', JArr [])]"



text \<open>
  Bodies with a string-typed property that \<open>String\<close> cannot convert:
  \<open>{workspaceId: {toString: null}}\<close>,
  \<open>{workspaces: [{}, {workspaceName: {toString: null}}]}\<close> and
  \<open>{workspaces: "none", findingsFile: {toString: null}}\<close>.
\<close>

definition unconvertible_id_body :: jsval where
  "unconvertible_id_body = JObj [(''workspaceId'', JObj [(''toString'', JNull)])]"

definition unconvertible_element_body :: jsval where
  "unconvertible_element_body =
     JObj [(''workspaces'', JArr
        [JObj [], JObj [(''workspaceName'', JObj [(''toString'', JNull)])]])]"

definition unconvertible_file_body :: jsval where
  "unconvertible_file_body =
     JObj [(''workspaces'', JStr ''none''), (''findingsFile'', JObj [(''toString'', JNull)])]"

text \<open>\<open>{workspaceName: "w1", findings: [null, null, null]}\<close> and its record.\<close>

definition flat_count_body :: jsval where
  "flat_count_body =
     JObj [(''workspaceName'', JStr ''w1''), (''findings'', JArr [JNull, JNull, JNull])]"

definition flat_count_record :: workspace_payload where
  "flat_count_record =
     \<lparr> workspaceId = '''', workspaceName = ''w1'', extensionVersion = '''',
       generatedAt = ''2025-01-01T00:00:00.000Z'', findings = [JNull, JNull, JNull],
       findingsCount = Finite 3, findingsFile = '''' \<rparr>"


section \<open>Facts about values, strings and sequencing\<close>

lemma and_then_Inl [simp]: "and_then (Inl e) f = Inl e"
  by (simp add: and_then_def)

lemma and_then_Inr [simp]: "and_then (Inr x) f = f x"
  by (simp add: and_then_def)

lemma and_then_eq_Inr: "and_then m f = Inr y \<longleftrightarrow> (\<exists>x. m = Inr x \<and> f x = Inr y)"
  by (cases m) simp_all

lemma trim_empty_iff: "trim s = [] \<longleftrightarrow> list_all is_whitespace s"
proof -
  have a: "dropWhile is_whitespace s = [] \<longleftrightarrow> list_all is_whitespace s"
    by (simp add: dropWhile_eq_Nil_conv list_all_iff)
  have b: "dropWhile is_whitespace (rev (dropWhile is_whitespace s)) = []
      \<longleftrightarrow> dropWhile is_whitespace s = []"
  proof
    assume all: "dropWhile is_whitespace (rev (dropWhile is_whitespace s)) = []"
    show "dropWhile is_whitespace s = []"
    proof (rule ccontr)
      assume ne: "dropWhile is_whitespace s \<noteq> []"
      then have "\<not> is_whitespace (hd (dropWhile is_whitespace s))"
        by (rule hd_dropWhile)
      moreover have "hd (dropWhile is_whitespace s) \<in> set (dropWhile is_whitespace s)"
        using ne by simp
      ultimately show False
        using all by (auto simp: dropWhile_eq_Nil_conv)
    qed
  next
    assume none: "dropWhile is_whitespace s = []"
    show "dropWhile is_whitespace (rev (dropWhile is_whitespace s)) = []"
      unfolding none by simp
  qed
  show ?thesis
    by (simp only: trim_def rev_is_Nil_conv a b)
qed

lemma extract_token_empty_iff:
  "extract_token header = [] \<longleftrightarrow>
     (case header of
        None \<Rightarrow> True
      | Some h \<Rightarrow> \<not> startsWith h ''Bearer '' \<or> list_all is_whitespace (drop 7 h))"
  by (cases header) (simp_all add: extract_token_def startsWith_def trim_empty_iff)

lemma isArray_js_get_truthy: "isArray (js_get b k) \<Longrightarrow> truthy b"
  by (cases b) simp_all

lemma isArray_conv: "isArray v \<longleftrightarrow> (\<exists>xs. v = JArr xs)"
  by (cases v) simp_all

lemma js_or_same [simp]: "js_or a a = a"
  by (simp add: js_or_def)

lemma js_or_truthy: "truthy a \<Longrightarrow> js_or a c = a"
  by (simp add: js_or_def)

lemma js_or_falsy: "\<not> truthy a \<Longrightarrow> js_or a c = c"
  by (simp add: js_or_def)

lemma js_or_default_converts:
  assumes "\<exists>s. js_String ns v = Inr s"
  shows "\<exists>s. js_String ns (js_or v (JStr d)) = Inr s"
  using assms by (simp add: js_or_def)

lemma number_or_zero_eq: "number_or_zero n = (if n = NaN then Finite 0 else n)"
  by (simp add: number_or_zero_def)

lemma number_or_zero_idem [simp]: "number_or_zero (number_or_zero c) = number_or_zero c"
  by (simp add: number_or_zero_def)

lemma is_nonneg_int_of_nat: "is_nonneg_int (Finite (of_nat k))"
  by (simp add: is_nonneg_int_def)

lemma coercedI: "js_String ns (js_or v (JStr '''')) = Inr s \<Longrightarrow> coerced ns v s"
  by (cases v) (auto simp: coerced_def js_or_def split: if_splits)

lemma number_or_length_not_number:
  "\<not> isNumber c \<Longrightarrow> number_or_length c v = Finite (of_nat (length (array_or_empty v)))"
  by (cases c; cases v) simp_all

section \<open>Facts about the normalizer\<close>

text \<open>The flat branch builds what the callback builds for the body as its own element.\<close>

lemma workspace_of_body_as_element:
  "workspace_of_body ns now b = workspace_of_element ns now b b"
  by (simp add: workspace_of_body_def workspace_of_element_def)

lemma map_elements_Inr:
  "map_elements ns clock b i ws = Inr rs \<Longrightarrow>
     length rs = length ws \<and>
     (\<forall>j<length ws. workspace_of_element ns (clock (i + j)) b (ws ! j) = Inr (rs ! j))"
proof (induction ws arbitrary: i rs)
  case Nil
  then show ?case by simp
next
  case (Cons w ws)
  from Cons.prems obtain r rs' where
    r: "workspace_of_element ns (clock i) b w = Inr r" and
    rs': "map_elements ns clock b (Suc i) ws = Inr rs'" and
    rs: "rs = r # rs'"
    by (auto simp: and_then_eq_Inr)
  from Cons.IH [OF rs'] have len: "length rs' = length ws" and
    nth: "\<And>j. j < length ws \<Longrightarrow>
            workspace_of_element ns (clock (Suc i + j)) b (ws ! j) = Inr (rs' ! j)"
    by simp_all
  show ?case
  proof (intro conjI allI impI)
    show "length rs = length (w # ws)" using len rs by simp
  next
    fix j assume "j < length (w # ws)"
    then show "workspace_of_element ns (clock (i + j)) b ((w # ws) ! j) = Inr (rs ! j)"
      using r nth rs by (cases j) simp_all
  qed
qed

lemma input_records_multi: "js_get b ''workspaces'' = JArr ws \<Longrightarrow> input_records b = ws"
  by (simp add: input_records_def)

text \<open>
  Whenever the normalizer returns, it returns one record per input record, in order, each
  built by the callback from its input record.
\<close>

lemma normalize_records:
  assumes "normalizeToWorkspaces ns clock b = Inr rs"
  shows "length rs = length (input_records b)"
    and "i < length rs \<Longrightarrow>
           workspace_of_element ns (clock i) b (input_records b ! i) = Inr (rs ! i)"
proof -
  show "length rs = length (input_records b)"
  proof (cases "isArray (js_get b ''workspaces'')")
    case True
    then show ?thesis
      using assms map_elements_Inr [of ns clock b 0 "array_or_empty (js_get b ''workspaces'')" rs]
      by (simp add: normalizeToWorkspaces_def input_records_def isArray_js_get_truthy)
  next
    case False
    then show ?thesis
      using assms by (auto simp: normalizeToWorkspaces_def input_records_def and_then_eq_Inr)
  qed
  show "workspace_of_element ns (clock i) b (input_records b ! i) = Inr (rs ! i)"
    if "i < length rs"
  proof (cases "isArray (js_get b ''workspaces'')")
    case True
    then show ?thesis
      using assms that
        map_elements_Inr [of ns clock b 0 "array_or_empty (js_get b ''workspaces'')" rs]
      by (simp add: normalizeToWorkspaces_def input_records_def isArray_js_get_truthy)
  next
    case False
    then show ?thesis
      using assms that
      by (auto simp: normalizeToWorkspaces_def input_records_def and_then_eq_Inr
            workspace_of_body_as_element)
  qed
qed

lemma workspace_of_element_fields:
  assumes "workspace_of_element ns now b w = Inr r"
  shows "js_String ns (js_or (js_get w ''workspaceId'') (JStr '''')) = Inr (workspaceId r)"
    and "js_String ns (js_or (js_get w ''workspaceName'') (JStr '''')) = Inr (workspaceName r)"
    and "js_String ns (js_or (js_or (js_get b ''extensionVersion'') (js_get w ''extensionVersion''))
            (JStr '''')) = Inr (extensionVersion r)"
    and "js_String ns (js_or (js_or (js_get b ''generatedAt'') (js_get w ''generatedAt''))
            (JStr now)) = Inr (generatedAt r)"
    and "js_String ns (js_or (js_get w ''findingsFile'') (JStr '''')) = Inr (findingsFile r)"
    and "findings r = array_or_empty (js_get w ''findings'')"
    and "findingsCount r = number_or_length (js_get w ''findingsCount'') (js_get w ''findings'')"
  using assms by (auto simp: workspace_of_element_def and_then_eq_Inr)

lemma normalize_empty_iff:
  "normalizeToWorkspaces ns clock b = Inr [] \<longleftrightarrow> js_get b ''workspaces'' = JArr []"
proof
  assume r: "normalizeToWorkspaces ns clock b = Inr []"
  from normalize_records(1) [OF r] have "input_records b = []"
    by simp
  then show "js_get b ''workspaces'' = JArr []"
    by (cases "js_get b ''workspaces''") (simp_all add: input_records_def)
next
  assume a: "js_get b ''workspaces'' = JArr []"
  then have "truthy b"
    by (intro isArray_js_get_truthy [of b "''workspaces''"]) simp
  then show "normalizeToWorkspaces ns clock b = Inr []"
    using a by (simp add: normalizeToWorkspaces_def)
qed

lemma normalize_flat_single:
  assumes "\<not> isArray (js_get b ''workspaces'')" and "normalizeToWorkspaces ns clock b = Inr rs"
  shows "rs = [rs ! 0] \<and> workspace_of_body ns (clock 0) b = Inr (rs ! 0)"
  using assms by (auto simp: normalizeToWorkspaces_def and_then_eq_Inr)

lemma workspace_of_element_returns:
  assumes "\<And>k. k \<in> set [''workspaceId'', ''workspaceName'', ''extensionVersion'',
              ''generatedAt'', ''findingsFile''] \<Longrightarrow>
            (\<exists>s. js_String ns (js_get w k) = Inr s) \<and> (\<exists>s. js_String ns (js_get b k) = Inr s)"
  shows "\<exists>r. workspace_of_element ns now b w = Inr r"
proof -
  have 1: "\<exists>s. js_String ns (js_or (js_get w ''workspaceId'') (JStr '''')) = Inr s"
    using assms [of "''workspaceId''"] by (simp add: js_or_def)
  have 2: "\<exists>s. js_String ns (js_or (js_get w ''workspaceName'') (JStr '''')) = Inr s"
    using assms [of "''workspaceName''"] by (simp add: js_or_def)
  have 3: "\<exists>s. js_String ns (js_or (js_or (js_get b ''extensionVersion'')
      (js_get w ''extensionVersion'')) (JStr '''')) = Inr s"
    using assms [of "''extensionVersion''"] by (simp add: js_or_def)
  have 4: "\<exists>s. js_String ns (js_or (js_or (js_get b ''generatedAt'')
      (js_get w ''generatedAt'')) (JStr now)) = Inr s"
    using assms [of "''generatedAt''"] by (simp add: js_or_def)
  have 5: "\<exists>s. js_String ns (js_or (js_get w ''findingsFile'') (JStr '''')) = Inr s"
    using assms [of "''findingsFile''"] by (simp add: js_or_def)
  from 1 2 3 4 5 show ?thesis
    by (auto simp: workspace_of_element_def)
qed

lemma map_elements_returns:
  assumes "\<And>w j. w \<in> set ws \<Longrightarrow> \<exists>r. workspace_of_element ns (clock j) b w = Inr r"
  shows "\<exists>rs. map_elements ns clock b i ws = Inr rs"
  using assms
proof (induction ws arbitrary: i)
  case Nil
  then show ?case by simp
next
  case (Cons w ws)
  from Cons.prems [of w i] obtain r where r: "workspace_of_element ns (clock i) b w = Inr r"
    by auto
  from Cons.IH [of "Suc i"] Cons.prems obtain rs where
    "map_elements ns clock b (Suc i) ws = Inr rs"
    by auto
  with r show ?case
    by simp
qed

text \<open>
  The normalizer returns whenever \<open>String\<close> converts every value it may be applied to:
  the five string-typed properties of the body and of each input record.
\<close>

lemma normalize_returns:
  assumes "\<And>w k. w \<in> set (b # input_records b) \<Longrightarrow>
             k \<in> set [''workspaceId'', ''workspaceName'', ''extensionVersion'',
               ''generatedAt'', ''findingsFile''] \<Longrightarrow>
             \<exists>s. js_String ns (js_get w k) = Inr s"
  shows "\<exists>rs. normalizeToWorkspaces ns clock b = Inr rs \<and> length rs = length (input_records b)"
proof -
  have el: "\<exists>r. workspace_of_element ns now b w = Inr r" if "w \<in> set (b # input_records b)"
    for w now
    using that assms by (intro workspace_of_element_returns) simp
  have "\<exists>rs. normalizeToWorkspaces ns clock b = Inr rs"
  proof (cases "isArray (js_get b ''workspaces'')")
    case True
    then have "input_records b = array_or_empty (js_get b ''workspaces'')"
      by (simp add: input_records_def)
    then have "\<exists>rs. map_elements ns clock b 0 (array_or_empty (js_get b ''workspaces'')) = Inr rs"
      using el by (intro map_elements_returns) simp
    then show ?thesis
      using True by (simp add: normalizeToWorkspaces_def isArray_js_get_truthy)
  next
    case False
    from el [of b "clock 0"] obtain r where "workspace_of_body ns (clock 0) b = Inr r"
      by (auto simp: workspace_of_body_as_element)
    then show ?thesis
      using False by (simp add: normalizeToWorkspaces_def)
  qed
  then obtain rs where rs: "normalizeToWorkspaces ns clock b = Inr rs" ..
  with normalize_records(1) [OF rs] show ?thesis
    by blast
qed

lemma converts_default:
  "converts ns v \<Longrightarrow> \<exists>s. js_String ns (js_or v (JStr d)) = Inr s"
  by (auto simp: converts_def js_or_def split: sum.splits)

lemma default_converts:
  "js_String ns (js_or v (JStr d)) = Inr s \<Longrightarrow> converts ns v"
  by (cases v) (auto simp: converts_def js_or_def split: if_splits)

text \<open>The callback returns a record exactly when \<open>String\<close> converts its five values.\<close>

lemma workspace_of_element_converts:
  "(\<exists>r. workspace_of_element ns now b w = Inr r) \<longleftrightarrow>
     list_all (converts ns) (string_values b w)"
proof
  assume "\<exists>r. workspace_of_element ns now b w = Inr r"
  then obtain r where r: "workspace_of_element ns now b w = Inr r" ..
  show "list_all (converts ns) (string_values b w)"
    using workspace_of_element_fields(1-5) [OF r]
    by (auto simp: string_values_def dest: default_converts)
next
  assume c: "list_all (converts ns) (string_values b w)"
  have 1: "\<exists>s. js_String ns (js_or (js_get w ''workspaceId'') (JStr '''')) = Inr s"
    and 2: "\<exists>s. js_String ns (js_or (js_get w ''workspaceName'') (JStr '''')) = Inr s"
    and 3: "\<exists>s. js_String ns (js_or (js_or (js_get b ''extensionVersion'')
      (js_get w ''extensionVersion'')) (JStr '''')) = Inr s"
    and 4: "\<exists>s. js_String ns (js_or (js_or (js_get b ''generatedAt'')
      (js_get w ''generatedAt'')) (JStr now)) = Inr s"
    and 5: "\<exists>s. js_String ns (js_or (js_get w ''findingsFile'') (JStr '''')) = Inr s"
    using c by (simp_all add: string_values_def converts_default)
  from 1 2 3 4 5 show "\<exists>r. workspace_of_element ns now b w = Inr r"
    by (auto simp: workspace_of_element_def)
qed

text \<open>The normalizer returns exactly for the bodies whose string values all convert.\<close>

lemma normalize_returns_iff:
  "(\<exists>rs. normalizeToWorkspaces ns clock b = Inr rs) \<longleftrightarrow> strings_convert ns b"
proof
  assume "\<exists>rs. normalizeToWorkspaces ns clock b = Inr rs"
  then obtain rs where rs: "normalizeToWorkspaces ns clock b = Inr rs" ..
  have "list_all (converts ns) (string_values b w)" if "w \<in> set (input_records b)" for w
  proof -
    from that obtain i where i: "i < length (input_records b)" "input_records b ! i = w"
      by (auto simp: in_set_conv_nth)
    then have "i < length rs"
      using normalize_records(1) [OF rs] by simp
    from normalize_records(2) [OF rs this] i
    have "\<exists>r. workspace_of_element ns (clock i) b w = Inr r"
      by auto
    then show ?thesis
      by (simp add: workspace_of_element_converts)
  qed
  then show "strings_convert ns b"
    by (simp add: strings_convert_def list_all_iff)
next
  assume c: "strings_convert ns b"
  have el: "\<exists>r. workspace_of_element ns now b w = Inr r" if "w \<in> set (input_records b)"
    for w now
    using that c by (simp add: workspace_of_element_converts strings_convert_def list_all_iff)
  show "\<exists>rs. normalizeToWorkspaces ns clock b = Inr rs"
  proof (cases "isArray (js_get b ''workspaces'')")
    case True
    then have "input_records b = array_or_empty (js_get b ''workspaces'')"
      by (simp add: input_records_def)
    then have "\<exists>rs. map_elements ns clock b 0 (array_or_empty (js_get b ''workspaces'')) = Inr rs"
      using el by (intro map_elements_returns) simp
    then show ?thesis
      using True by (simp add: normalizeToWorkspaces_def isArray_js_get_truthy)
  next
    case False
    then have "b \<in> set (input_records b)"
      by (simp add: input_records_def)
    from el [OF this, of "clock 0"] obtain r where "workspace_of_body ns (clock 0) b = Inr r"
      by (auto simp: workspace_of_body_as_element)
    then show ?thesis
      using False by (simp add: normalizeToWorkspaces_def)
  qed
qed

section \<open>Facts about the documents and the response\<close>

lemma build_docs_length [simp]: "length (build_docs user dates rs) = length rs"
  by (simp add: build_docs_def)

lemma build_docs_nth:
  "i < length rs \<Longrightarrow> build_docs user dates rs ! i = doc_of_payload user (dates i) (rs ! i)"
  by (simp add: build_docs_def nth_enumerate_eq)

lemma doc_findingsCount:
  "findingsCount (doc_of_payload user t w) = number_or_zero (findingsCount w)"
  by (simp add: doc_of_payload_def)



lemma total_findings_exact_sum:
  assumes "\<And>x y. add (Finite x) (Finite y) = Finite (x + y)"
  shows "foldl add (Finite z) (map Finite qs) = Finite (z + sum_list qs)"
  using assms by (induction qs arbitrary: z) (simp_all add: add.assoc)




section \<open>The outcomes of the handler\<close>

lemma githubUsernameFromToken_fails:
  assumes "fetch_user env tok = Inr r"
    and "\<not> r_ok r \<or> (\<exists>data. r_json r = Inr data \<and> \<not> truthy (js_get data ''login''))"
  shows "\<exists>e. githubUsernameFromToken (fetch_user env) tok = Inl e"
  using assms by (auto simp: githubUsernameFromToken_def)

lemma post_findings_auth_failed:
  assumes "extract_token (authorization req) = tok" and "tok \<noteq> []"
    and "githubUsernameFromToken (fetch_user env) tok = Inl e"
  shows "post_findings env req =
           \<lparr> res_status = 500, res_json = Failure e, calls = [GitHubUser tok] \<rparr>"
  using assms by (simp add: post_findings_def)

lemma post_findings_normalize_failed:
  assumes "extract_token (authorization req) = tok" and "tok \<noteq> []"
    and "githubUsernameFromToken (fetch_user env) tok = Inr user"
    and "normalizeToWorkspaces (number_to_string env) (iso_now env)
           (js_or (req_body req) (JObj [])) = Inl e"
  shows "post_findings env req =
           \<lparr> res_status = 500, res_json = Failure e, calls = [GitHubUser tok] \<rparr>"
  using assms by (simp add: post_findings_def)

lemma post_findings_empty:
  assumes "extract_token (authorization req) = tok" and "tok \<noteq> []"
    and "githubUsernameFromToken (fetch_user env) tok = Inr user"
    and "normalizeToWorkspaces (number_to_string env) (iso_now env)
           (js_or (req_body req) (JObj [])) = Inr []"
  shows "post_findings env req =
           \<lparr> res_status = 400, res_json = Failure ''Invalid payload'',
             calls = [GitHubUser tok] \<rparr>"
  using assms by (simp add: post_findings_def)

lemma post_findings_insert_failed:
  assumes "extract_token (authorization req) = tok" and "tok \<noteq> []"
    and "githubUsernameFromToken (fetch_user env) tok = Inr user"
    and "normalizeToWorkspaces (number_to_string env) (iso_now env)
           (js_or (req_body req) (JObj [])) = Inr rs"
    and "rs \<noteq> []"
    and "insertMany env (build_docs user (date_now env) rs) = Inl e"
  shows "post_findings env req =
           \<lparr> res_status = 500, res_json = Failure e,
             calls = [GitHubUser tok, InsertMany (build_docs user (date_now env) rs)] \<rparr>"
  using assms by (simp add: post_findings_def)

lemma post_findings_inserted:
  assumes "extract_token (authorization req) = tok" and "tok \<noteq> []"
    and "githubUsernameFromToken (fetch_user env) tok = Inr user"
    and "normalizeToWorkspaces (number_to_string env) (iso_now env)
           (js_or (req_body req) (JObj [])) = Inr rs"
    and "rs \<noteq> []"
    and "insertMany env (build_docs user (date_now env) rs) = Inr ids"
  shows "post_findings env req =
           \<lparr> res_status = 200,
             res_json = Success user (Finite (of_nat (length rs)))
                          (total_findings (number_add env) (build_docs user (date_now env) rs))
                          (object_values ids),
             calls = [GitHubUser tok, InsertMany (build_docs user (date_now env) rs)] \<rparr>"
  using assms by (simp add: post_findings_def Let_def)

lemma insert_call_docs:
  assumes "InsertMany docs \<in> set (calls (post_findings env req))"
  shows "\<exists>user rs.
           githubUsernameFromToken (fetch_user env) (extract_token (authorization req)) = Inr user \<and>
           normalizeToWorkspaces (number_to_string env) (iso_now env)
             (js_or (req_body req) (JObj [])) = Inr rs \<and>
           rs \<noteq> [] \<and> docs = build_docs user (date_now env) rs"
  using assms
  by (auto simp: post_findings_def Let_def split: sum.splits if_splits)

lemma status_400_only_empty_workspaces:
  assumes "res_status (post_findings env req) = 400"
  shows "js_get (req_body req) ''workspaces'' = JArr []"
proof -
  from assms have "normalizeToWorkspaces (number_to_string env) (iso_now env)
      (js_or (req_body req) (JObj [])) = Inr []"
    by (auto simp: post_findings_def Let_def split: sum.splits if_splits)
  then have "js_get (js_or (req_body req) (JObj [])) ''workspaces'' = JArr []"
    by (simp add: normalize_empty_iff)
  then show ?thesis
    by (cases "truthy (req_body req)") (simp_all add: js_or_def)
qed


section \<open>The examples, evaluated\<close>

lemma example_env_sel [simp]:
  "fetch_user (example_env r) = (\<lambda>t. Inr r)"
  "insertMany (example_env r) = (\<lambda>ds. Inr (numbered_ids ds))"
  "iso_now (example_env r) = example_clock"
  "date_now (example_env r) = (\<lambda>i. 0)"
  "number_to_string (example_env r) = example_print"
  "number_add (example_env r) = exact_add"
  by (simp_all add: example_env_def)

lemma example_token: "extract_token (authorization (example_request b)) = ''t''"
  by (simp add: example_request_def extract_token_def startsWith_def trim_def is_whitespace_def)

lemma alice_user:
  "githubUsernameFromToken (fetch_user (example_env alice_response)) tok = Inr (JStr ''alice'')"
  by (simp add: githubUsernameFromToken_def example_env_def alice_response_def)

lemma example_body: "truthy b \<Longrightarrow> js_or (req_body (example_request b)) (JObj []) = b"
  by (simp add: example_request_def js_or_def)

lemma versions_run:
  "normalizeToWorkspaces example_print example_clock versions_body = Inr versions_records"
  by (simp add: normalizeToWorkspaces_def workspace_of_element_def js_or_def versions_body_def
        versions_records_def)

lemma versions_first_element:
  "js_get (input_records versions_body ! 0) ''extensionVersion'' = JStr ''2.0''"
  "js_get (input_records versions_body ! 0) ''generatedAt'' = JStr ''2024-06-30T00:00:00.000Z''"
  by (simp_all add: input_records_def versions_body_def)

lemma negative_count_run:
  "normalizeToWorkspaces example_print example_clock negative_count_body =
     Inr [negative_count_record]"
  by (simp add: normalizeToWorkspaces_def workspace_of_body_def js_or_def
        negative_count_body_def negative_count_record_def example_clock_def)

lemma boolean_id_run:
  "normalizeToWorkspaces example_print example_clock boolean_id_body = Inr [boolean_id_record]"
  by (simp add: normalizeToWorkspaces_def workspace_of_body_def js_or_def
        boolean_id_body_def boolean_id_record_def example_clock_def)



lemma flat_count_run:
  "normalizeToWorkspaces example_print example_clock flat_count_body = Inr [flat_count_record]"
  by (simp add: normalizeToWorkspaces_def workspace_of_body_def js_or_def
        flat_count_body_def flat_count_record_def example_clock_def)

lemma counts_run:
  "normalizeToWorkspaces example_print example_clock counts_body = Inr counts_records"
  by (simp add: normalizeToWorkspaces_def workspace_of_element_def js_or_def counts_body_def
        counts_records_def example_clock_def)


section \<open>Missing credential\<close>

text \<open>
  C8. When the Authorization header is absent, does not start with \<open>Bearer \<close>, or carries
  only white space after the prefix, the handler answers 401 and the list of its outbound
  calls is empty: no identity-service call and no storage call. The outcome is the same
  fixed value whatever the body and the collaborators are, so the body is never
  normalized.
\<close>

theorem missing_credential_rejected:
  assumes "authorization req = None \<or>
           (\<exists>h. authorization req = Some h \<and>
                (\<not> startsWith h ''Bearer '' \<or> list_all is_whitespace (drop 7 h)))"
  shows "post_findings env req =
           \<lparr> res_status = 401, res_json = Failure ''Missing Bearer token'', calls = [] \<rparr>"
proof -
  from assms have "extract_token (authorization req) = []"
    by (auto simp: extract_token_empty_iff)
  then show ?thesis
    by (simp add: post_findings_def)
qed

theorem missing_credential_rejected_witness:
  "list_all is_whitespace (drop 7 ''Bearer   '') \<and>
   post_findings (example_env alice_response)
       \<lparr> authorization = Some ''Bearer   '', req_body = JObj [(''workspaces'', JArr [])] \<rparr> =
     \<lparr> res_status = 401, res_json = Failure ''Missing Bearer token'', calls = [] \<rparr>"
proof -
  have ws: "list_all is_whitespace (drop 7 ''Bearer   '')"
    by (simp add: is_whitespace_def)
  show ?thesis
    using ws
      missing_credential_rejected [of
        "\<lparr> authorization = Some ''Bearer   '', req_body = JObj [(''workspaces'', JArr [])] \<rparr>"
        "example_env alice_response"]
    by simp
qed

section \<open>Failed identity resolution\<close>

text \<open>
  C1, as amended. For a request with a non-empty bearer token, when the identity service
  answers with a non-success response, or with a success whose body has no truthy
  \<open>login\<close>, the handler answers with status 500 (the catch-all of its \<open>try\<close>), its
  only outbound call is the one to the identity service, and no document is handed to the
  store.
\<close>

theorem identity_failure_answers_500:
  assumes "extract_token (authorization req) = tok" and "tok \<noteq> []"
    and "fetch_user env tok = Inr r"
    and "\<not> r_ok r \<or> (\<exists>data. r_json r = Inr data \<and> \<not> truthy (js_get data ''login''))"
  shows "res_status (post_findings env req) = 500 \<and>
         calls (post_findings env req) = [GitHubUser tok] \<and>
         (\<forall>docs. InsertMany docs \<notin> set (calls (post_findings env req)))"
proof -
  from githubUsernameFromToken_fails [OF assms(3,4)] obtain e where
    "githubUsernameFromToken (fetch_user env) tok = Inl e" ..
  from post_findings_auth_failed [OF assms(1,2) this] show ?thesis
    by simp
qed

theorem identity_failure_answers_500_witness:
  "extract_token (authorization (example_request (JObj []))) = ''t'' \<and>
   fetch_user (example_env denied_response) ''t'' = Inr denied_response \<and>
   r_ok denied_response = False \<and>
   res_status (post_findings (example_env denied_response) (example_request (JObj []))) = 500 \<and>
   calls (post_findings (example_env denied_response) (example_request (JObj []))) =
     [GitHubUser ''t'']"
proof -
  have tok: "''t'' \<noteq> []"
    by simp
  have f: "fetch_user (example_env denied_response) ''t'' = Inr denied_response"
    by simp
  have nok: "\<not> r_ok denied_response \<or>
      (\<exists>data. r_json denied_response = Inr data \<and> \<not> truthy (js_get data ''login''))"
    by (simp add: denied_response_def)
  show ?thesis
    using identity_failure_answers_500 [OF example_token tok f nok] example_token f nok
    by (simp add: denied_response_def)
qed

text \<open>
  The claim as stated fails: a token the identity service rejects with 401 gets the
  status 500, not 401.
\<close>

theorem invalid_token_not_401:
  "extract_token (authorization (example_request (JObj []))) = ''t'' \<and>
   r_ok denied_response = False \<and>
   post_findings (example_env denied_response) (example_request (JObj [])) =
     \<lparr> res_status = 500, res_json = Failure ''GitHub auth failed: HTTP 401 Bad credentials'',
       calls = [GitHubUser ''t''] \<rparr> \<and>
   res_status (post_findings (example_env denied_response) (example_request (JObj []))) \<noteq> 401"
proof -
  have e: "githubUsernameFromToken (fetch_user (example_env denied_response)) ''t'' =
      Inl ''GitHub auth failed: HTTP 401 Bad credentials''"
    by (simp add: githubUsernameFromToken_def denied_response_def trim_def is_whitespace_def
          digit_char_def)
  have tok: "''t'' \<noteq> []"
    by simp
  show ?thesis
    using post_findings_auth_failed [OF example_token tok e] example_token
    by (simp add: denied_response_def)
qed

section \<open>Values that \<open>String\<close> cannot convert\<close>

text \<open>
  C6. The claim: a body whose \<open>workspaces\<close> is an array of N elements is normalized to
  exactly N records, and every other body to exactly one. The normalizer returns one
  record per input record whenever it returns (\<open>normalize_records\<close>), and it returns
  whenever every string-typed property converts (\<open>normalize_returns\<close>). It does not
  return for the flat body \<open>{workspaceId: {toString: null}}\<close>, nor for the two-element
  body \<open>{workspaces: [{}, {workspaceName: {toString: null}}]}\<close>: \<open>String\<close> throws
  a TypeError on an object whose own \<open>toString\<close> is not callable, no record is
  produced, and the handler answers 500.
\<close>

theorem unconvertible_field_throws:
  "input_records unconvertible_id_body = [unconvertible_id_body] \<and>
   normalizeToWorkspaces example_print example_clock unconvertible_id_body =
     Inl ''Cannot convert object to primitive value'' \<and>
   length (input_records unconvertible_element_body) = 2 \<and>
   normalizeToWorkspaces example_print example_clock unconvertible_element_body =
     Inl ''Cannot convert object to primitive value'' \<and>
   post_findings (example_env alice_response) (example_request unconvertible_id_body) =
     \<lparr> res_status = 500, res_json = Failure ''Cannot convert object to primitive value'',
       calls = [GitHubUser ''t''] \<rparr>"
proof -
  have a: "normalizeToWorkspaces example_print example_clock unconvertible_id_body =
      Inl ''Cannot convert object to primitive value''"
    by (simp add: normalizeToWorkspaces_def workspace_of_body_def js_or_def
          unconvertible_id_body_def cannot_convert_def)
  have b: "normalizeToWorkspaces example_print example_clock unconvertible_element_body =
      Inl ''Cannot convert object to primitive value''"
    by (simp add: normalizeToWorkspaces_def workspace_of_element_def js_or_def
          unconvertible_element_body_def cannot_convert_def example_clock_def)
  have tok: "''t'' \<noteq> []"
    by simp
  have body: "js_or (req_body (example_request unconvertible_id_body)) (JObj []) =
      unconvertible_id_body"
    by (rule example_body) (simp add: unconvertible_id_body_def)
  have run: "normalizeToWorkspaces (number_to_string (example_env alice_response))
      (iso_now (example_env alice_response))
      (js_or (req_body (example_request unconvertible_id_body)) (JObj [])) =
      Inl ''Cannot convert object to primitive value''"
    using a body by simp
  have recs: "input_records unconvertible_id_body = [unconvertible_id_body]"
    "length (input_records unconvertible_element_body) = 2"
    by (simp_all add: input_records_def unconvertible_id_body_def unconvertible_element_body_def)
  show ?thesis
    using a b recs post_findings_normalize_failed [OF example_token tok alice_user run]
    by simp
qed

text \<open>
  C10. The normalized sequence is empty exactly when \<open>workspaces\<close> is the empty array
  (\<open>normalize_empty_iff\<close>), and the status 400 is reached only then
  (\<open>status_400_only_empty_workspaces\<close>). But a body whose \<open>workspaces\<close> is not an
  array does not always yield one record: for
  \<open>{workspaces: "none", findingsFile: {toString: null}}\<close> the flat branch throws, no
  record is produced, and the handler answers 500.
\<close>

theorem flat_body_without_record:
  "isArray (js_get unconvertible_file_body ''workspaces'') = False \<and>
   normalizeToWorkspaces example_print example_clock unconvertible_file_body =
     Inl ''Cannot convert object to primitive value'' \<and>
   post_findings (example_env alice_response) (example_request unconvertible_file_body) =
     \<lparr> res_status = 500, res_json = Failure ''Cannot convert object to primitive value'',
       calls = [GitHubUser ''t''] \<rparr>"
proof -
  have a: "normalizeToWorkspaces example_print example_clock unconvertible_file_body =
      Inl ''Cannot convert object to primitive value''"
    by (simp add: normalizeToWorkspaces_def workspace_of_body_def js_or_def
          unconvertible_file_body_def cannot_convert_def)
  have tok: "''t'' \<noteq> []"
    by simp
  have body: "js_or (req_body (example_request unconvertible_file_body)) (JObj []) =
      unconvertible_file_body"
    by (rule example_body) (simp add: unconvertible_file_body_def)
  have run: "normalizeToWorkspaces (number_to_string (example_env alice_response))
      (iso_now (example_env alice_response))
      (js_or (req_body (example_request unconvertible_file_body)) (JObj [])) =
      Inl ''Cannot convert object to primitive value''"
    using a body by simp
  have flat: "isArray (js_get unconvertible_file_body ''workspaces'') = False"
    by (simp add: unconvertible_file_body_def)
  show ?thesis
    using a flat post_findings_normalize_failed [OF example_token tok alice_user run]
    by simp
qed

section \<open>The count of findings\<close>

text \<open>
  C5. For every body whose string values convert, the normalizer returns one record for
  every input record (the elements of \<open>workspaces\<close>, or the body itself in the flat
  shape), and for every input record the \<open>findingsCount\<close> of its record is the caller's
  \<open>findingsCount\<close> when that is of number type; otherwise it is the length of the
  coerced \<open>findings\<close> sequence, which is 0 when \<open>findings\<close> is absent or not an
  array. (For the other bodies the normalizer builds no record at all:
  \<open>normalize_returns_iff\<close>.)
\<close>

theorem findingsCount_number_or_length:
  assumes "strings_convert ns b" and "i < length (input_records b)"
  shows "\<exists>rs. normalizeToWorkspaces ns clock b = Inr rs \<and>
         length rs = length (input_records b) \<and>
         (\<forall>n. js_get (input_records b ! i) ''findingsCount'' = JNum n \<longrightarrow>
              findingsCount (rs ! i) = n) \<and>
         (\<not> isNumber (js_get (input_records b ! i) ''findingsCount'') \<longrightarrow>
            findingsCount (rs ! i) =
              Finite (of_nat (length (array_or_empty (js_get (input_records b ! i) ''findings''))))) \<and>
         (\<not> isNumber (js_get (input_records b ! i) ''findingsCount'') \<and>
          \<not> isArray (js_get (input_records b ! i) ''findings'') \<longrightarrow>
            findingsCount (rs ! i) = Finite 0)"
proof -
  let ?w = "input_records b ! i"
  from assms(1) obtain rs where rs: "normalizeToWorkspaces ns clock b = Inr rs"
    using normalize_returns_iff [of ns clock b] by blast
  have len: "length rs = length (input_records b)"
    using rs by (rule normalize_records(1))
  then have i: "i < length rs"
    using assms(2) by simp
  have "workspace_of_element ns (clock i) b ?w = Inr (rs ! i)"
    using rs i by (rule normalize_records(2))
  then have cnt: "findingsCount (rs ! i) =
      number_or_length (js_get ?w ''findingsCount'') (js_get ?w ''findings'')"
    by (rule workspace_of_element_fields(7))
  have num: "number_or_length (JNum n) v = n" for n v
    by simp
  have absent: "array_or_empty v = []" if "\<not> isArray v" for v
    using that by (cases v) simp_all
  have "length rs = length (input_records b) \<and>
         (\<forall>n. js_get ?w ''findingsCount'' = JNum n \<longrightarrow> findingsCount (rs ! i) = n) \<and>
         (\<not> isNumber (js_get ?w ''findingsCount'') \<longrightarrow>
            findingsCount (rs ! i) =
              Finite (of_nat (length (array_or_empty (js_get ?w ''findings''))))) \<and>
         (\<not> isNumber (js_get ?w ''findingsCount'') \<and> \<not> isArray (js_get ?w ''findings'') \<longrightarrow>
            findingsCount (rs ! i) = Finite 0)"
    using len cnt by (auto simp: num number_or_length_not_number absent)
  with rs show ?thesis
    by blast
qed

theorem findingsCount_number_or_length_witness:
  "strings_convert example_print flat_count_body \<and>
   input_records flat_count_body = [flat_count_body] \<and>
   js_get flat_count_body ''findingsCount'' = JUndefined \<and>
   js_get flat_count_body ''findings'' = JArr [JNull, JNull, JNull] \<and>
   normalizeToWorkspaces example_print example_clock flat_count_body = Inr [flat_count_record] \<and>
   findingsCount ([flat_count_record] ! 0) = Finite 3 \<and>
   strings_convert example_print counts_body \<and>
   length (input_records counts_body) = 3 \<and>
   js_get (input_records counts_body ! 0) ''findingsCount'' = JNum (Finite 7) \<and>
   js_get (input_records counts_body ! 2) ''findingsCount'' = JStr ''3'' \<and>
   js_get (input_records counts_body ! 2) ''findings'' = JUndefined \<and>
   normalizeToWorkspaces example_print example_clock counts_body = Inr counts_records \<and>
   findingsCount (counts_records ! 0) = Finite 7 \<and>
   findingsCount (counts_records ! 2) = Finite 0"
proof -
  have fc: "strings_convert example_print flat_count_body"
    by (simp add: strings_convert_def input_records_def flat_count_body_def string_values_def
          converts_def js_or_def)
  have fr: "input_records flat_count_body = [flat_count_body]"
    by (simp add: input_records_def flat_count_body_def)
  have fi: "0 < length (input_records flat_count_body)"
    by (simp add: fr)
  have ff: "js_get flat_count_body ''findingsCount'' = JUndefined"
    "js_get flat_count_body ''findings'' = JArr [JNull, JNull, JNull]"
    by (simp_all add: flat_count_body_def)
  have mc: "strings_convert example_print counts_body"
    by (simp add: strings_convert_def input_records_def counts_body_def string_values_def
          converts_def js_or_def)
  have mr: "input_records counts_body =
      [JObj [(''findingsCount'', JNum (Finite 7)), (''findings'', JArr [JNull])],
       JObj [(''findings'', JArr [JNull, JNull])],
       JObj [(''findingsCount'', JStr ''3'')]]"
    by (simp add: input_records_def counts_body_def)
  have m0: "0 < length (input_records counts_body)" and m2: "2 < length (input_records counts_body)"
    by (simp_all add: mr)
  from findingsCount_number_or_length [OF fc fi, of example_clock]
  have f: "findingsCount ([flat_count_record] ! 0) = Finite 3"
    by (simp add: flat_count_run fr ff)
  from findingsCount_number_or_length [OF mc m0, of example_clock]
  have c0: "findingsCount (counts_records ! 0) = Finite 7"
    by (simp add: counts_run mr)
  from findingsCount_number_or_length [OF mc m2, of example_clock]
  have c2: "findingsCount (counts_records ! 2) = Finite 0"
    by (simp add: counts_run mr)
  show ?thesis
    using fc fr ff flat_count_run f mc counts_run c0 c2 by (simp add: mr)
qed

section \<open>The count is not validated\<close>

text \<open>
  C3, as amended. Whenever the normalizer returns: when the caller's \<open>findingsCount\<close> is
  not of number type, the record's and the persisted document's \<open>findingsCount\<close> is a
  non-negative integer (the length of \<open>findings\<close>); when it is a number, the record
  carries that number unchanged, whatever its sign or fraction, and the document built for
  the store carries it unchanged too, except that \<open>NaN\<close> is stored as 0. The documents
  the handler hands to the store are \<open>build_docs\<close> of the normalized records
  (\<open>insert_call_docs\<close>).
\<close>

theorem findingsCount_carried_unchecked:
  assumes "normalizeToWorkspaces ns clock b = Inr rs" and "i < length rs"
  shows "length (build_docs user dates rs) = length rs \<and>
    (\<not> isNumber (js_get (input_records b ! i) ''findingsCount'') \<longrightarrow>
       is_nonneg_int (findingsCount (rs ! i)) \<and>
       is_nonneg_int (findingsCount (build_docs user dates rs ! i))) \<and>
    (\<forall>n. js_get (input_records b ! i) ''findingsCount'' = JNum n \<longrightarrow>
       findingsCount (rs ! i) = n \<and>
       findingsCount (build_docs user dates rs ! i) = (if n = NaN then Finite 0 else n))"
proof -
  let ?w = "input_records b ! i"
  have "workspace_of_element ns (clock i) b ?w = Inr (rs ! i)"
    using assms by (rule normalize_records(2))
  then have cnt: "findingsCount (rs ! i) =
      number_or_length (js_get ?w ''findingsCount'') (js_get ?w ''findings'')"
    by (rule workspace_of_element_fields(7))
  have doc: "findingsCount (build_docs user dates rs ! i) =
      (if findingsCount (rs ! i) = NaN then Finite 0 else findingsCount (rs ! i))"
    using assms(2) by (simp add: build_docs_nth doc_findingsCount number_or_zero_eq)
  have nonnum: "is_nonneg_int (findingsCount (rs ! i)) \<and>
      is_nonneg_int (findingsCount (build_docs user dates rs ! i))"
    if "\<not> isNumber (js_get ?w ''findingsCount'')"
  proof -
    have "findingsCount (rs ! i) =
        Finite (of_nat (length (array_or_empty (js_get ?w ''findings''))))"
      using cnt number_or_length_not_number [OF that] by simp
    then show ?thesis
      using doc by (simp add: is_nonneg_int_of_nat)
  qed
  have num: "findingsCount (rs ! i) = n \<and>
      findingsCount (build_docs user dates rs ! i) = (if n = NaN then Finite 0 else n)"
    if "js_get ?w ''findingsCount'' = JNum n" for n
    using that cnt doc by simp
  show ?thesis
    using nonnum num by simp
qed

theorem findingsCount_carried_unchecked_witness:
  "normalizeToWorkspaces example_print example_clock negative_count_body =
     Inr [negative_count_record] \<and>
   js_get (input_records negative_count_body ! 0) ''findingsCount'' = JNum (Finite (- 5)) \<and>
   findingsCount ([negative_count_record] ! 0) = Finite (- 5) \<and>
   findingsCount (build_docs (JStr ''alice'') (\<lambda>i. 0) [negative_count_record] ! 0) =
     Finite (- 5)"
proof -
  have i: "0 < length [negative_count_record]"
    by simp
  have c: "js_get (input_records negative_count_body ! 0) ''findingsCount'' = JNum (Finite (- 5))"
    by (simp add: input_records_def negative_count_body_def)
  show ?thesis
    using negative_count_run c
      findingsCount_carried_unchecked [OF negative_count_run i, of "JStr ''alice''" "\<lambda>i. 0"]
    by simp
qed

text \<open>
  The claim as stated fails: for the body \<open>{findingsCount: -5}\<close> the normalized record
  and the document handed to the store both carry \<open>-5\<close>.
\<close>

theorem negative_count_persisted:
  "normalizeToWorkspaces example_print example_clock negative_count_body =
     Inr [negative_count_record] \<and>
   \<not> is_nonneg_int (findingsCount negative_count_record) \<and>
   calls (post_findings (example_env alice_response) (example_request negative_count_body)) =
     [GitHubUser ''t'',
      InsertMany [doc_of_payload (JStr ''alice'') 0 negative_count_record]] \<and>
   \<not> is_nonneg_int (findingsCount (doc_of_payload (JStr ''alice'') 0 negative_count_record))"
proof -
  have b: "js_or (req_body (example_request negative_count_body)) (JObj []) = negative_count_body"
    by (rule example_body) (simp add: negative_count_body_def)
  have neg: "\<not> is_nonneg_int (findingsCount negative_count_record)"
    by (simp add: negative_count_record_def is_nonneg_int_def)
  have negdoc:
    "\<not> is_nonneg_int (findingsCount (doc_of_payload (JStr ''alice'') 0 negative_count_record))"
    by (simp add: doc_findingsCount number_or_zero_eq negative_count_record_def is_nonneg_int_def)
  have "post_findings (example_env alice_response) (example_request negative_count_body) =
     \<lparr> res_status = 200,
       res_json = Success (JStr ''alice'') (Finite (of_nat (length [negative_count_record])))
          (total_findings (number_add (example_env alice_response))
             (build_docs (JStr ''alice'') (date_now (example_env alice_response))
                [negative_count_record]))
          (object_values
             (numbered_ids (build_docs (JStr ''alice'') (date_now (example_env alice_response))
                [negative_count_record]))),
       calls = [GitHubUser ''t'',
                InsertMany (build_docs (JStr ''alice'') (date_now (example_env alice_response))
                   [negative_count_record])] \<rparr>"
    by (rule post_findings_inserted [OF example_token _ alice_user])
      (simp_all add: b negative_count_run)
  then have "calls (post_findings (example_env alice_response)
        (example_request negative_count_body)) =
     [GitHubUser ''t'',
      InsertMany [doc_of_payload (JStr ''alice'') 0 negative_count_record]]"
    by (simp add: build_docs_def)
  then show ?thesis
    using negative_count_run neg negdoc by simp
qed

section \<open>Request-level and element-level version and time\<close>

text \<open>
  C2, as amended. For a multi-workspace body, whenever the normalizer returns, each
  record's \<open>extensionVersion\<close> is the text of the request-level value when the body
  supplies a truthy one; the element's own value is used only when the request-level one
  is missing or falsy, and the empty string when both are. \<open>generatedAt\<close> follows the
  same order, ending in the current time.
\<close>

theorem request_level_values_first:
  assumes "normalizeToWorkspaces ns clock b = Inr rs"
    and "js_get b ''workspaces'' = JArr ws"
    and "i < length ws"
  shows "length rs = length ws \<and>
    (truthy (js_get b ''extensionVersion'') \<longrightarrow>
       js_String ns (js_get b ''extensionVersion'') = Inr (extensionVersion (rs ! i))) \<and>
    (\<not> truthy (js_get b ''extensionVersion'') \<and> truthy (js_get (ws ! i) ''extensionVersion'') \<longrightarrow>
       js_String ns (js_get (ws ! i) ''extensionVersion'') = Inr (extensionVersion (rs ! i))) \<and>
    (\<not> truthy (js_get b ''extensionVersion'') \<and> \<not> truthy (js_get (ws ! i) ''extensionVersion'') \<longrightarrow>
       extensionVersion (rs ! i) = '''') \<and>
    (truthy (js_get b ''generatedAt'') \<longrightarrow>
       js_String ns (js_get b ''generatedAt'') = Inr (generatedAt (rs ! i))) \<and>
    (\<not> truthy (js_get b ''generatedAt'') \<and> truthy (js_get (ws ! i) ''generatedAt'') \<longrightarrow>
       js_String ns (js_get (ws ! i) ''generatedAt'') = Inr (generatedAt (rs ! i))) \<and>
    (\<not> truthy (js_get b ''generatedAt'') \<and> \<not> truthy (js_get (ws ! i) ''generatedAt'') \<longrightarrow>
       generatedAt (rs ! i) = clock i)"
proof -
  have recs: "input_records b = ws"
    using assms(2) by (rule input_records_multi)
  have len: "length rs = length ws"
    using normalize_records(1) [OF assms(1)] recs by simp
  then have "i < length rs"
    using assms(3) by simp
  from normalize_records(2) [OF assms(1) this]
  have el: "workspace_of_element ns (clock i) b (ws ! i) = Inr (rs ! i)"
    using recs by simp
  note ev = workspace_of_element_fields(3) [OF el]
  note gen = workspace_of_element_fields(4) [OF el]
  show ?thesis
    using len ev gen by (auto simp: js_or_truthy js_or_falsy)
qed

theorem request_level_values_first_witness:
  "normalizeToWorkspaces example_print example_clock versions_body = Inr versions_records \<and>
   js_get versions_body ''workspaces'' =
     JArr [JObj [(''extensionVersion'', JStr ''2.0''),
                 (''generatedAt'', JStr ''2024-06-30T00:00:00.000Z'')],
           JObj []] \<and>
   js_String example_print (js_get versions_body ''extensionVersion'') =
     Inr (extensionVersion (versions_records ! 0)) \<and>
   js_String example_print (js_get versions_body ''generatedAt'') =
     Inr (generatedAt (versions_records ! 0))"
proof -
  let ?ws = "[JObj [(''extensionVersion'', JStr ''2.0''),
                    (''generatedAt'', JStr ''2024-06-30T00:00:00.000Z'')],
              JObj []]"
  have ws: "js_get versions_body ''workspaces'' = JArr ?ws"
    by (simp add: versions_body_def)
  have i: "0 < length ?ws"
    by simp
  have t: "truthy (js_get versions_body ''extensionVersion'')"
    "truthy (js_get versions_body ''generatedAt'')"
    by (simp_all add: versions_body_def)
  show ?thesis
    using versions_run ws t request_level_values_first [OF versions_run ws i]
    by simp
qed

text \<open>
  The claim as stated fails: the first element supplies its own version \<open>2.0\<close>, and its
  record carries the request-level \<open>1.0\<close>.
\<close>

theorem element_version_not_preferred:
  "js_get (input_records versions_body ! 0) ''extensionVersion'' = JStr ''2.0'' \<and>
   js_get (input_records versions_body ! 0) ''generatedAt'' = JStr ''2024-06-30T00:00:00.000Z'' \<and>
   normalizeToWorkspaces example_print example_clock versions_body = Inr versions_records \<and>
   extensionVersion (versions_records ! 0) = ''1.0'' \<and>
   generatedAt (versions_records ! 0) = ''2024-01-01T00:00:00.000Z''"
  using versions_run versions_first_element by (simp add: versions_records_def)

section \<open>String fields\<close>

text \<open>
  C4, as amended. Whenever the normalizer returns, each of \<open>workspaceId\<close>,
  \<open>workspaceName\<close> and \<open>findingsFile\<close> of a record equals the caller's value when
  that is a string, is the empty string when the value is missing or falsy (\<open>null\<close>,
  \<open>false\<close>, \<open>0\<close>, \<open>NaN\<close>), and is otherwise the text that \<open>String\<close>
  gives for the value (\<open>true\<close> becomes \<open>"true"\<close>). \<open>extensionVersion\<close> is
  coerced the same way from the request-level value when that is truthy and from the
  record's own value otherwise.
\<close>

theorem string_fields_coerced:
  assumes "normalizeToWorkspaces ns clock b = Inr rs" and "i < length rs"
  shows "coerced ns (js_get (input_records b ! i) ''workspaceId'') (workspaceId (rs ! i)) \<and>
    coerced ns (js_get (input_records b ! i) ''workspaceName'') (workspaceName (rs ! i)) \<and>
    coerced ns (js_get (input_records b ! i) ''findingsFile'') (findingsFile (rs ! i)) \<and>
    coerced ns
      (js_or (js_get b ''extensionVersion'') (js_get (input_records b ! i) ''extensionVersion''))
      (extensionVersion (rs ! i))"
proof -
  have el: "workspace_of_element ns (clock i) b (input_records b ! i) = Inr (rs ! i)"
    using assms by (rule normalize_records(2))
  show ?thesis
    using workspace_of_element_fields(1,2,3,5) [OF el]
    by (simp add: coercedI)
qed

theorem string_fields_coerced_witness:
  "normalizeToWorkspaces example_print example_clock boolean_id_body = Inr [boolean_id_record] \<and>
   coerced example_print (JBool True) ''true'' \<and>
   coerced example_print JUndefined ''''"
proof -
  have i: "0 < length [boolean_id_record]"
    by simp
  have w: "input_records boolean_id_body ! 0 = boolean_id_body"
    by (simp add: input_records_def boolean_id_body_def)
  have f: "js_get boolean_id_body ''workspaceId'' = JBool True"
    "js_get boolean_id_body ''workspaceName'' = JUndefined"
    by (simp_all add: boolean_id_body_def)
  have r: "workspaceId boolean_id_record = ''true''" "workspaceName boolean_id_record = ''''"
    by (simp_all add: boolean_id_record_def)
  show ?thesis
    using boolean_id_run string_fields_coerced [OF boolean_id_run i]
    unfolding w f by (simp add: r)
qed

text \<open>
  The claim as stated fails: the boolean \<open>workspaceId: true\<close> becomes \<open>"true"\<close>, not
  the empty string, and an element's own string \<open>extensionVersion\<close> gives way to the
  request-level one.
\<close>

theorem non_string_field_not_emptied:
  "js_get (input_records boolean_id_body ! 0) ''workspaceId'' = JBool True \<and>
   normalizeToWorkspaces example_print example_clock boolean_id_body = Inr [boolean_id_record] \<and>
   workspaceId ([boolean_id_record] ! 0) = ''true'' \<and>
   js_get (input_records versions_body ! 0) ''extensionVersion'' = JStr ''2.0'' \<and>
   normalizeToWorkspaces example_print example_clock versions_body = Inr versions_records \<and>
   extensionVersion (versions_records ! 0) = ''1.0''"
proof -
  have "js_get (input_records boolean_id_body ! 0) ''workspaceId'' = JBool True"
    by (simp add: input_records_def boolean_id_body_def)
  then show ?thesis
    using boolean_id_run versions_run versions_first_element(1)
    by (simp add: boolean_id_record_def versions_records_def)
qed

section \<open>Empty batch\<close>

text \<open>
  C9. An authenticated request whose normalized sequence is empty is answered with 400
  and the only outbound call is the one to the identity service: no storage call. And for
  every request, a storage call is made only when normalization has returned a non-empty
  sequence.
\<close>

theorem empty_batch_rejected:
  assumes "extract_token (authorization req) = tok" and "tok \<noteq> []"
    and "githubUsernameFromToken (fetch_user env) tok = Inr user"
    and "normalizeToWorkspaces (number_to_string env) (iso_now env)
           (js_or (req_body req) (JObj [])) = Inr []"
  shows "post_findings env req =
           \<lparr> res_status = 400, res_json = Failure ''Invalid payload'',
             calls = [GitHubUser tok] \<rparr> \<and>
         (\<forall>env' req' docs.
            InsertMany docs \<in> set (calls (post_findings env' req')) \<longrightarrow>
            (\<exists>rs. normalizeToWorkspaces (number_to_string env') (iso_now env')
                    (js_or (req_body req') (JObj [])) = Inr rs \<and> rs \<noteq> []))"
proof -
  have "post_findings env req =
           \<lparr> res_status = 400, res_json = Failure ''Invalid payload'',
             calls = [GitHubUser tok] \<rparr>"
    using assms by (rule post_findings_empty)
  moreover have "\<exists>rs. normalizeToWorkspaces (number_to_string env') (iso_now env')
                    (js_or (req_body req') (JObj [])) = Inr rs \<and> rs \<noteq> []"
    if "InsertMany docs \<in> set (calls (post_findings env' req'))" for env' req' docs
    using insert_call_docs [OF that] by blast
  ultimately show ?thesis
    by blast
qed

theorem empty_batch_rejected_witness:
  "extract_token (authorization (example_request empty_workspaces_body)) = ''t'' \<and>
   githubUsernameFromToken (fetch_user (example_env alice_response)) ''t'' = Inr (JStr ''alice'') \<and>
   normalizeToWorkspaces example_print example_clock empty_workspaces_body = Inr [] \<and>
   post_findings (example_env alice_response) (example_request empty_workspaces_body) =
     \<lparr> res_status = 400, res_json = Failure ''Invalid payload'', calls = [GitHubUser ''t''] \<rparr>"
proof -
  have tok: "''t'' \<noteq> []"
    by simp
  have run: "normalizeToWorkspaces example_print example_clock empty_workspaces_body = Inr []"
    by (simp add: normalizeToWorkspaces_def empty_workspaces_body_def)
  have b: "js_or (req_body (example_request empty_workspaces_body)) (JObj []) =
      empty_workspaces_body"
    by (rule example_body) (simp add: empty_workspaces_body_def)
  have run': "normalizeToWorkspaces (number_to_string (example_env alice_response))
      (iso_now (example_env alice_response))
      (js_or (req_body (example_request empty_workspaces_body)) (JObj [])) = Inr []"
    using run b by simp
  show ?thesis
    using empty_batch_rejected [OF example_token tok alice_user run'] example_token alice_user run
    by simp
qed

section \<open>The response of a successful request\<close>



end
